theory Spec2Isabelle
  imports Complex_Main "HOL-Library.Word"
begin

section \<open>JavaScript values, as far as the worker observes them\<close>

text \<open>
  A JavaScript string is a sequence of 16-bit code units. \<open>js\<close> turns a literal of
  the source (all of them ASCII) into that sequence.
\<close>

type_synonym jsstring = "16 word list"

definition js :: "string \<Rightarrow> jsstring" where
  "js s = map of_char s"

text \<open>
  \<open>String.prototype.trim\<close> removes the code units of WhiteSpace and LineTerminator
  from both ends.
\<close>

definition is_ws :: "16 word \<Rightarrow> bool" where
  "is_ws c =
     (c \<in> set [0x0009, 0x000A, 0x000B, 0x000C, 0x000D, 0x0020, 0x00A0, 0x1680,
                0x2028, 0x2029, 0x202F, 0x205F, 0x3000, 0xFEFF]
      \<or> (0x2000 \<le> c \<and> c \<le> 0x200A))"

definition trim :: "jsstring \<Rightarrow> jsstring" where
  "trim s = rev (dropWhile is_ws (rev (dropWhile is_ws s)))"

text \<open>
  The values \<open>JSON.parse\<close> can return. A number is a finite double, taken here as
  the real it denotes: the worker only tests it against zero. A property read that
  finds nothing gives \<open>undefined\<close>, which is \<open>None\<close> of \<open>jsval option\<close>.
\<close>

datatype jsval =
    JNull
  | JBool bool
  | JNum real
  | JStr jsstring
  | JArr "jsval list"
  | JObj "(jsstring \<times> jsval) list"

datatype js_error = SyntaxError | TypeError | AiError

text \<open>
  \<open>v.k\<close> for the property names the worker reads (\<open>sessionId\<close>, \<open>message\<close>, \<open>role\<close>,
  none of them defined by a prototype): \<open>null\<close> throws, an object gives its member,
  every other value gives \<open>undefined\<close>.
\<close>

fun member :: "jsval \<Rightarrow> jsstring \<Rightarrow> js_error + jsval option" where
  "member JNull k = Inl TypeError"
| "member (JObj fields) k = Inr (map_of fields k)"
| "member (JBool b) k = Inr None"
| "member (JNum n) k = Inr None"
| "member (JStr s) k = Inr None"
| "member (JArr xs) k = Inr None"

text \<open>\<open>!v\<close> is \<open>\<not> truthy v\<close>.\<close>

fun truthy :: "jsval option \<Rightarrow> bool" where
  "truthy None = False"
| "truthy (Some JNull) = False"
| "truthy (Some (JBool b)) = b"
| "truthy (Some (JNum n)) = (n \<noteq> 0)"
| "truthy (Some (JStr s)) = (s \<noteq> [])"
| "truthy (Some (JArr xs)) = True"
| "truthy (Some (JObj fields)) = True"

fun typeof :: "jsval option \<Rightarrow> string" where
  "typeof None = ''undefined''"
| "typeof (Some JNull) = ''object''"
| "typeof (Some (JBool b)) = ''boolean''"
| "typeof (Some (JNum n)) = ''number''"
| "typeof (Some (JStr s)) = ''string''"
| "typeof (Some (JArr xs)) = ''object''"
| "typeof (Some (JObj fields)) = ''object''"

text \<open>The string of a value that \<open>typeof\<close> has found to be one.\<close>

fun the_string :: "jsval option \<Rightarrow> jsstring" where
  "the_string (Some (JStr s)) = s"
| "the_string _ = []"

text \<open>
  A text (a request body, a value of the key-value store) is represented by what
  \<open>JSON.parse\<close> makes of it: \<open>Empty\<close> is the empty text, \<open>NotJson\<close> a non-empty text
  on which \<open>JSON.parse\<close> throws, \<open>IsJson v\<close> a text that it parses to \<open>v\<close>. So
  \<open>JSON.stringify v\<close> is \<open>IsJson v\<close>: what the worker writes (objects with two string
  fields, and values it has parsed before) is read back as it was written.
\<close>

datatype rawtext = Empty | NotJson | IsJson jsval

section \<open>The data of \<open>src/index.ts\<close>\<close>

definition SYSTEM_PROMPT :: jsstring where
  "SYSTEM_PROMPT = js (''\<newline>You are Edge Study Buddy, a friendly but concise study assistant.\<newline>''
     @ ''- Keep answers focused and structured.\<newline>''
     @ ''- When user asks to review or continue, use context from previous messages.\<newline>''
     @ ''- If the user is studying security / systems / AI, tailor examples to that.\<newline>'')"

datatype Role = system | user | assistant

record ChatMessage =
  role :: Role
  content :: jsstring

fun role_name :: "Role \<Rightarrow> jsstring" where
  "role_name system = js ''system''"
| "role_name user = js ''user''"
| "role_name assistant = js ''assistant''"

text \<open>The object literal \<open>{ role: r, content: c }\<close>.\<close>

definition obj :: "ChatMessage \<Rightarrow> jsval" where
  "obj m = JObj [(js ''role'', JStr (role_name (role m))), (js ''content'', JStr (content m))]"

definition MAX_HISTORY_MESSAGES :: nat where
  "MAX_HISTORY_MESSAGES = 16"

record Request =
  body :: rawtext

record Response =
  status :: nat
  headers :: "(jsstring \<times> jsstring) list"
  payload :: rawtext

text \<open>
  What \<open>env.AI.run\<close> does with the messages it is given: it throws, or it returns an
  object whose \<open>response\<close> is a string or is missing (\<open>None\<close>).
\<close>

datatype ai_result = AiThrows | AiResponse "jsstring option"

text \<open>
  The calls made on the two collaborators, in order. The model identifier,
  \<open>max_tokens = 512\<close> and \<open>temperature = 0.4\<close> are the same in every \<open>AiRun\<close>.
\<close>

datatype event =
    KvGet jsstring
  | KvPut jsstring rawtext nat
  | AiRun "jsval list"

text \<open>
  The bindings \<open>AI\<close> and \<open>CHAT_KV\<close> (a store that answers every \<open>get\<close> and \<open>put\<close>),
  with the record of the calls made on them and of what \<open>console.error\<close> printed.
\<close>

record Env =
  AI :: "jsval list \<Rightarrow> ai_result"
  CHAT_KV :: "jsstring \<rightharpoonup> rawtext"
  trace :: "event list"
  console :: "js_error list"

section \<open>Memory helpers\<close>

definition sessionKey :: "jsstring \<Rightarrow> jsstring" where
  "sessionKey sessionId = js ''session:'' @ sessionId"

definition loadHistory :: "Env \<Rightarrow> jsstring \<Rightarrow> jsval list \<times> Env" where
  "loadHistory env sessionId =
     (let raw = CHAT_KV env (sessionKey sessionId);
          env' = env\<lparr>trace := trace env @ [KvGet (sessionKey sessionId)]\<rparr>
      in (case raw of
            None \<Rightarrow> []
          | Some Empty \<Rightarrow> []
          | Some NotJson \<Rightarrow> []
          | Some (IsJson parsed) \<Rightarrow> (case parsed of JArr xs \<Rightarrow> xs | _ \<Rightarrow> []),
          env'))"

definition saveHistory :: "Env \<Rightarrow> jsstring \<Rightarrow> jsval list \<Rightarrow> Env" where
  "saveHistory env sessionId history =
     env\<lparr>CHAT_KV := (CHAT_KV env)(sessionKey sessionId \<mapsto> IsJson (JArr history)),
         trace := trace env @ [KvPut (sessionKey sessionId) (IsJson (JArr history)) (60 * 60 * 24 * 7)]\<rparr>"

text \<open>
  \<open>xs.slice(start)\<close>: a negative \<open>start\<close> counts from the end, and \<open>-0\<close> is \<open>0\<close>.
\<close>

definition slice_from :: "'a list \<Rightarrow> int \<Rightarrow> 'a list" where
  "slice_from xs start =
     (let len = int (length xs);
          k = (if start < 0 then max (len + start) 0 else min start len)
      in drop (nat k) xs)"

text \<open>
  In the second branch \<open>history\<close> has more than \<open>maxMessages + 1\<close> elements, so
  \<open>history[0]\<close> is its head.
\<close>

definition trimHistory :: "'a list \<Rightarrow> nat \<Rightarrow> 'a list" where
  "trimHistory history maxMessages =
     (if length history \<le> maxMessages + 1 then history
      else (case history of
              [] \<Rightarrow> history
            | systemMessage # _ \<Rightarrow>
                (let rest = slice_from history 1;
                     trimmedRest = slice_from rest (- int maxMessages)
                 in systemMessage # trimmedRest)))"

section \<open>The chat handler\<close>

definition json :: "jsval \<Rightarrow> nat \<Rightarrow> Response" where
  "json data st =
     \<lparr>status = st,
      headers =
        [(js ''content-type'', js ''application/json; charset=utf-8''),
         (js ''access-control-allow-origin'', js ''*''),
         (js ''access-control-allow-headers'', js ''Content-Type''),
         (js ''access-control-allow-methods'', js ''POST,OPTIONS'')],
      payload = IsJson data\<rparr>"

definition request_json :: "Request \<Rightarrow> js_error + jsval" where
  "request_json request =
     (case body request of IsJson v \<Rightarrow> Inr v | Empty \<Rightarrow> Inl SyntaxError | NotJson \<Rightarrow> Inl SyntaxError)"

text \<open>Lines 70 to 118: the work done once both fields have passed their checks.\<close>

definition converse :: "jsstring \<Rightarrow> jsstring \<Rightarrow> Env \<Rightarrow> (js_error + Response) \<times> Env" where
  "converse sessionId message env =
     (let userMessage = trim message;
          (loaded, env1) = loadHistory env sessionId;
          seeded = (if length loaded = 0
                    then loaded @ [obj \<lparr>role = system, content = trim SYSTEM_PROMPT\<rparr>]
                    else loaded);
          appended = seeded @ [obj \<lparr>role = user, content = userMessage\<rparr>];
          history = trimHistory appended MAX_HISTORY_MESSAGES;
          env2 = env1\<lparr>trace := trace env1 @ [AiRun history]\<rparr>
      in (case AI env history of
            AiThrows \<Rightarrow> (Inl AiError, env2)
          | AiResponse response \<Rightarrow>
              (let replyText = (case response of None \<Rightarrow> js ''[no response]'' | Some t \<Rightarrow> t);
                   final = history @ [obj \<lparr>role = assistant, content = replyText\<rparr>];
                   env3 = saveHistory env2 sessionId final
               in (Inr (json (JObj [(js ''reply'', JStr replyText), (js ''history'', JArr final)]) 200),
                   env3))))"

text \<open>The body of the \<open>try\<close>: a thrown error is \<open>Inl\<close>.\<close>

definition try_chat :: "Request \<Rightarrow> Env \<Rightarrow> (js_error + Response) \<times> Env" where
  "try_chat request env =
     (case request_json request of
        Inl err \<Rightarrow> (Inl err, env)
      | Inr b \<Rightarrow>
          (case member b (js ''sessionId'') of
             Inl err \<Rightarrow> (Inl err, env)
           | Inr sid \<Rightarrow>
               if \<not> truthy sid \<or> typeof sid \<noteq> ''string''
               then (Inr (json (JObj [(js ''error'', JStr (js ''Missing or invalid sessionId''))]) 400), env)
               else
                 (case member b (js ''message'') of
                    Inl err \<Rightarrow> (Inl err, env)
                  | Inr msg \<Rightarrow>
                      if \<not> truthy msg \<or> typeof msg \<noteq> ''string''
                      then (Inr (json (JObj [(js ''error'', JStr (js ''Missing or invalid message''))]) 400), env)
                      else converse (the_string sid) (the_string msg) env)))"

definition handleChat :: "Request \<Rightarrow> Env \<Rightarrow> Response \<times> Env" where
  "handleChat request env =
     (case try_chat request env of
        (Inr response, env') \<Rightarrow> (response, env')
      | (Inl err, env') \<Rightarrow>
          (json (JObj [(js ''error'', JStr (js ''Internal error''))]) 500,
           env'\<lparr>console := console env' @ [err]\<rparr>))"

text \<open>
  Requests served one after the other, each with what the inference backend does
  during it.
\<close>

fun serve :: "(Request \<times> (jsval list \<Rightarrow> ai_result)) list \<Rightarrow> Env \<Rightarrow> Env" where
  "serve [] env = env"
| "serve ((request, ai) # calls) env = serve calls (snd (handleChat request (env\<lparr>AI := ai\<rparr>)))"

text \<open>The transcript a session has in the store: what \<open>loadHistory\<close> would return.\<close>

definition stored_history :: "Env \<Rightarrow> jsstring \<Rightarrow> jsval list" where
  "stored_history env sessionId = fst (loadHistory env sessionId)"

section \<open>Notions used to state the properties\<close>

text \<open>
  The session identifier and the message of a request that passes the checks of
  lines 63 to 68, read with the handler's own tests.
\<close>

definition accepted :: "Request \<Rightarrow> (jsstring \<times> jsstring) option" where
  "accepted request =
     (case request_json request of
        Inl err \<Rightarrow> None
      | Inr b \<Rightarrow>
          (case (member b (js ''sessionId''), member b (js ''message'')) of
             (Inr sid, Inr msg) \<Rightarrow>
               if truthy sid \<and> typeof sid = ''string'' \<and> truthy msg \<and> typeof msg = ''string''
               then Some (the_string sid, the_string msg)
               else None
           | _ \<Rightarrow> None))"

text \<open>The request the front end sends: \<open>JSON.stringify({ sessionId, message })\<close>.\<close>

definition chat_request :: "jsstring \<Rightarrow> jsstring \<Rightarrow> Request" where
  "chat_request sessionId message =
     \<lparr>body = IsJson (JObj [(js ''sessionId'', JStr sessionId), (js ''message'', JStr message)])\<rparr>"

text \<open>A worker whose store is empty and that has called nothing yet.\<close>

definition fresh_env :: "(jsval list \<Rightarrow> ai_result) \<Rightarrow> Env" where
  "fresh_env ai = \<lparr>AI = ai, CHAT_KV = Map.empty, trace = [], console = []\<rparr>"

text \<open>A worker whose store holds one value, under the key of one session.\<close>

definition stored_env :: "(jsval list \<Rightarrow> ai_result) \<Rightarrow> jsstring \<Rightarrow> rawtext \<Rightarrow> Env" where
  "stored_env ai sessionId raw =
     \<lparr>AI = ai, CHAT_KV = [sessionKey sessionId \<mapsto> raw], trace = [], console = []\<rparr>"

text \<open>
  Three inference backends: one that throws, one that returns no \<open>response\<close>, one
  that returns the given text.
\<close>

definition ai_down :: "jsval list \<Rightarrow> ai_result" where
  "ai_down messages = AiThrows"

definition ai_silent :: "jsval list \<Rightarrow> ai_result" where
  "ai_silent messages = AiResponse None"

definition ai_says :: "jsstring \<Rightarrow> jsval list \<Rightarrow> ai_result" where
  "ai_says t messages = AiResponse (Some t)"

text \<open>The reply text of line 102.\<close>

definition reply_text :: "jsstring option \<Rightarrow> jsstring" where
  "reply_text response = (case response of None \<Rightarrow> js ''[no response]'' | Some t \<Rightarrow> t)"

text \<open>
  A transcript for the examples: the instruction turn, then \<open>n\<close> turns numbered from
  1, the odd ones of the user and the even ones of the assistant, each with its
  number as content.
\<close>

definition turn_no :: "nat \<Rightarrow> jsval" where
  "turn_no i = obj \<lparr>role = (if odd i then user else assistant), content = [of_nat i]\<rparr>"

definition transcript_of :: "nat \<Rightarrow> jsval list" where
  "transcript_of n = obj \<lparr>role = system, content = trim SYSTEM_PROMPT\<rparr> # map turn_no [1 ..< Suc n]"

text \<open>
  The messages handed to the model (lines 74 to 90): the loaded transcript, seeded
  when empty, with the user's turn appended, then trimmed.
\<close>

definition context_window :: "Env \<Rightarrow> jsstring \<Rightarrow> jsstring \<Rightarrow> jsval list" where
  "context_window env sessionId message =
     (let loaded = stored_history env sessionId;
          seeded = (if length loaded = 0
                    then loaded @ [obj \<lparr>role = system, content = trim SYSTEM_PROMPT\<rparr>]
                    else loaded)
      in trimHistory (seeded @ [obj \<lparr>role = user, content = trim message\<rparr>]) MAX_HISTORY_MESSAGES)"

definition has_role :: "Role \<Rightarrow> jsval \<Rightarrow> bool" where
  "has_role r v = (member v (js ''role'') = Inr (Some (JStr (role_name r))))"

text \<open>
  A transcript is empty, or its turn at position 0 is the instruction turn and no
  other turn has that role.
\<close>

definition instruction_first :: "jsval list \<Rightarrow> bool" where
  "instruction_first h =
     (case h of
        [] \<Rightarrow> True
      | x # xs \<Rightarrow> has_role system x \<and> list_all (\<lambda>v. \<not> has_role system v) xs)"

definition nonempty_content :: "jsval \<Rightarrow> bool" where
  "nonempty_content v =
     (case member v (js ''content'') of
        Inr (Some (JStr c)) \<Rightarrow> c \<noteq> []
      | _ \<Rightarrow> False)"

text \<open>
  A stored value that is absent, empty, not JSON, or JSON that is not an array.
\<close>

fun unreadable :: "rawtext option \<Rightarrow> bool" where
  "unreadable None = True"
| "unreadable (Some Empty) = True"
| "unreadable (Some NotJson) = True"
| "unreadable (Some (IsJson (JArr xs))) = False"
| "unreadable (Some (IsJson v)) = True"

section \<open>Windowing\<close>

lemma slice_from_one: "slice_from (x # xs) 1 = xs"
  by (simp add: slice_from_def)

lemma slice_from_neg:
  "slice_from xs (- int n) = (if n = 0 then xs else drop (length xs - n) xs)"
  by (auto simp: slice_from_def Let_def max_def nat_diff_distrib')

lemma trimHistory_short: "length h \<le> n + 1 \<Longrightarrow> trimHistory h n = h"
  by (simp add: trimHistory_def)

lemma trimHistory_long:
  "n + 1 < length (x # xs) \<Longrightarrow> 0 < n \<Longrightarrow> trimHistory (x # xs) n = x # drop (length xs - n) xs"
  by (simp add: trimHistory_def slice_from_one slice_from_neg Let_def)

lemma length_trimHistory: "0 < n \<Longrightarrow> length (trimHistory h n) \<le> n + 1"
proof (cases "length h \<le> n + 1")
  case True
  then show ?thesis by (simp add: trimHistory_short)
next
  case False
  then obtain x xs where h: "h = x # xs" by (cases h) auto
  assume "0 < n"
  with False h show ?thesis by (simp add: trimHistory_long)
qed

lemma kept_is_suffix: "xs = dropped @ kept \<Longrightarrow> length kept = n \<Longrightarrow> kept = drop (length xs - n) xs"
  by simp

text \<open>
  C1. With the bound \<open>N = 16\<close>, \<open>trimHistory\<close> returns a transcript of at most \<open>N + 1\<close>
  turns unchanged. A longer transcript splits into the turn at position 0, the older
  turns that are dropped and the last \<open>N\<close> turns that are kept, and \<open>trimHistory\<close>
  returns the turn at position 0 followed by the kept turns in their order.
\<close>

theorem trimHistory_window:
  "MAX_HISTORY_MESSAGES = 16 \<and>
   (length h \<le> 16 + 1 \<longrightarrow> trimHistory h MAX_HISTORY_MESSAGES = h) \<and>
   (16 + 1 < length h \<longrightarrow>
      (\<exists>dropped kept. tl h = dropped @ kept \<and> dropped \<noteq> [] \<and> length kept = 16 \<and>
         trimHistory h MAX_HISTORY_MESSAGES = h ! 0 # kept))"
proof (intro conjI impI)
  show "MAX_HISTORY_MESSAGES = 16" by (simp add: MAX_HISTORY_MESSAGES_def)
next
  assume "length h \<le> 16 + 1"
  then show "trimHistory h MAX_HISTORY_MESSAGES = h"
    by (simp add: MAX_HISTORY_MESSAGES_def trimHistory_short)
next
  assume long: "16 + 1 < length h"
  then obtain x xs where h: "h = x # xs" by (cases h) auto
  let ?dropped = "take (length xs - 16) xs" and ?kept = "drop (length xs - 16) xs"
  have "tl h = ?dropped @ ?kept" by (simp add: h)
  moreover have "?dropped \<noteq> []" using long by (auto simp: h)
  moreover have "length ?kept = 16" using long by (simp add: h)
  moreover have "trimHistory h MAX_HISTORY_MESSAGES = h ! 0 # ?kept"
    using long by (simp add: h MAX_HISTORY_MESSAGES_def trimHistory_long)
  ultimately show "\<exists>dropped kept. tl h = dropped @ kept \<and> dropped \<noteq> [] \<and> length kept = 16 \<and>
         trimHistory h MAX_HISTORY_MESSAGES = h ! 0 # kept"
    by blast
qed

theorem trimHistory_window_witness:
  "length [0 ..< 5 :: nat] \<le> 16 + 1 \<and>
   trimHistory [0 ..< 5 :: nat] MAX_HISTORY_MESSAGES = [0, 1, 2, 3, 4] \<and>
   16 + 1 < length [0 ..< 20 :: nat] \<and>
   trimHistory [0 ..< 20 :: nat] MAX_HISTORY_MESSAGES
     = [0, 4, 5, 6, 7, 8, 9, 10, 11, 12, 13, 14, 15, 16, 17, 18, 19]"
proof -
  have short: "length [0 ..< 5 :: nat] \<le> 16 + 1" by simp
  have long: "16 + 1 < length [0 ..< 20 :: nat]" by simp
  have five: "[0 ..< 5 :: nat] = [0, 1, 2, 3, 4]" by (simp add: upt_rec)
  have twenty: "[0 ..< 20 :: nat]
      = [0, 1, 2, 3, 4, 5, 6, 7, 8, 9, 10, 11, 12, 13, 14, 15, 16, 17, 18, 19]"
    by (simp add: upt_rec)
  from trimHistory_window [of "[0 ..< 5 :: nat]"] short
  have a: "trimHistory [0 ..< 5 :: nat] MAX_HISTORY_MESSAGES = [0, 1, 2, 3, 4]"
    using five by simp
  from trimHistory_window [of "[0 ..< 20 :: nat]"] long
  obtain dropped kept where split: "tl [0 ..< 20 :: nat] = dropped @ kept" and len: "length kept = 16"
    and r: "trimHistory [0 ..< 20 :: nat] MAX_HISTORY_MESSAGES = [0 ..< 20] ! 0 # kept"
    by blast
  have "kept = drop (length (tl [0 ..< 20 :: nat]) - 16) (tl [0 ..< 20 :: nat])"
    by (simp add: kept_is_suffix [OF split len])
  then have "kept = [4, 5, 6, 7, 8, 9, 10, 11, 12, 13, 14, 15, 16, 17, 18, 19]"
    by (simp add: twenty)
  with r have b: "trimHistory [0 ..< 20 :: nat] MAX_HISTORY_MESSAGES
     = [0, 4, 5, 6, 7, 8, 9, 10, 11, 12, 13, 14, 15, 16, 17, 18, 19]"
    by simp
  from short a long b show ?thesis by blast
qed

section \<open>The handler, case by case\<close>

lemma checks_pass_iff:
  "(truthy v \<and> typeof v = ''string'') = (\<exists>s. v = Some (JStr s) \<and> s \<noteq> [])"
  by (cases v rule: truthy.cases) auto

lemma loadHistory_eq:
  "loadHistory env s = (stored_history env s, env\<lparr>trace := trace env @ [KvGet (sessionKey s)]\<rparr>)"
  by (simp add: loadHistory_def stored_history_def Let_def)

lemma converse_throws:
  "AI env (context_window env s m) = AiThrows \<Longrightarrow>
   converse s m env =
     (Inl AiError,
      env\<lparr>trace := trace env @ [KvGet (sessionKey s), AiRun (context_window env s m)]\<rparr>)"
  by (simp add: converse_def loadHistory_eq context_window_def Let_def)

lemma converse_replies:
  "AI env (context_window env s m) = AiResponse r \<Longrightarrow>
   converse s m env =
     (let final = context_window env s m @ [obj \<lparr>role = assistant, content = reply_text r\<rparr>]
      in (Inr (json (JObj [(js ''reply'', JStr (reply_text r)), (js ''history'', JArr final)]) 200),
          env\<lparr>CHAT_KV := (CHAT_KV env)(sessionKey s \<mapsto> IsJson (JArr final)),
              trace := trace env @ [KvGet (sessionKey s), AiRun (context_window env s m),
                                    KvPut (sessionKey s) (IsJson (JArr final)) 604800]\<rparr>))"
  by (simp add: converse_def loadHistory_eq context_window_def Let_def saveHistory_def reply_text_def)

lemma try_chat_accepted:
  "accepted request = Some (s, m) \<Longrightarrow> try_chat request env = converse s m env"
  by (auto simp: accepted_def try_chat_def split: sum.splits if_splits)

lemma try_chat_not_accepted:
  "accepted request = None \<Longrightarrow> snd (try_chat request env) = env"
  by (auto simp: accepted_def try_chat_def split: sum.splits if_splits)

lemma accepted_chat_request:
  "accepted (chat_request s m) = (if s \<noteq> [] \<and> m \<noteq> [] then Some (s, m) else None)"
  by (simp add: accepted_def chat_request_def request_json_def js_def)

lemma handleChat_accepted_throws:
  assumes "accepted request = Some (s, m)" and "AI env (context_window env s m) = AiThrows"
  shows "handleChat request env =
     (json (JObj [(js ''error'', JStr (js ''Internal error''))]) 500,
      env\<lparr>trace := trace env @ [KvGet (sessionKey s), AiRun (context_window env s m)],
          console := console env @ [AiError]\<rparr>)"
  using assms by (simp add: handleChat_def try_chat_accepted converse_throws)

lemma handleChat_accepted_replies:
  assumes "accepted request = Some (s, m)" and "AI env (context_window env s m) = AiResponse r"
  shows "handleChat request env =
     (json (JObj [(js ''reply'', JStr (reply_text r)),
                  (js ''history'', JArr (context_window env s m @ [obj \<lparr>role = assistant, content = reply_text r\<rparr>]))]) 200,
      env\<lparr>CHAT_KV := (CHAT_KV env)(sessionKey s \<mapsto>
             IsJson (JArr (context_window env s m @ [obj \<lparr>role = assistant, content = reply_text r\<rparr>]))),
          trace := trace env @ [KvGet (sessionKey s), AiRun (context_window env s m),
             KvPut (sessionKey s)
               (IsJson (JArr (context_window env s m @ [obj \<lparr>role = assistant, content = reply_text r\<rparr>]))) 604800]\<rparr>)"
  using assms by (simp add: handleChat_def try_chat_accepted converse_replies Let_def)

lemma sessionKey_inj: "(sessionKey a = sessionKey b) = (a = b)"
  by (simp add: sessionKey_def)

lemma stored_history_trace [simp]: "stored_history (env\<lparr>trace := t\<rparr>) sid = stored_history env sid"
  by (simp add: stored_history_def loadHistory_def)

lemma stored_history_console [simp]: "stored_history (env\<lparr>console := t\<rparr>) sid = stored_history env sid"
  by (simp add: stored_history_def loadHistory_def)

lemma stored_history_AI [simp]: "stored_history (env\<lparr>AI := a\<rparr>) sid = stored_history env sid"
  by (simp add: stored_history_def loadHistory_def)

lemma stored_history_put:
  "stored_history (env\<lparr>CHAT_KV := (CHAT_KV env)(sessionKey s \<mapsto> IsJson (JArr h))\<rparr>) sid
     = (if sid = s then h else stored_history env sid)"
  by (simp add: stored_history_def loadHistory_def sessionKey_inj)

lemma last_trimHistory:
  "0 < n \<Longrightarrow> h \<noteq> [] \<Longrightarrow> last (trimHistory h n) = last h"
proof (cases "length h \<le> n + 1")
  case True
  then show ?thesis by (simp add: trimHistory_short)
next
  case False
  assume n: "0 < n"
  from False obtain x xs where h: "h = x # xs" by (cases h) auto
  from False h n have lt: "length xs - n < length xs" by auto
  then have "drop (length xs - n) xs \<noteq> []" by simp
  then have "last (x # drop (length xs - n) xs) = last xs"
    using lt by (simp add: last_drop)
  moreover from lt have "last h = last xs" by (auto simp: h)
  ultimately show ?thesis using False h n by (simp add: trimHistory_long)
qed

lemma last_context_window:
  "last (context_window env s m) = obj \<lparr>role = user, content = trim m\<rparr>"
  by (simp add: context_window_def Let_def last_trimHistory MAX_HISTORY_MESSAGES_def)

section \<open>Failure of the inference call\<close>

text \<open>
  C2. When a request passes the checks and the inference call throws, the handler
  answers with the internal error (status 500) and stores nothing: the store, and so
  the transcript of every session, is what it was before the call. The model had
  been called with a window that ends in the user's new turn, which is lost.
\<close>

theorem inference_failure_persists_nothing:
  assumes "accepted request = Some (s, m)"
    and "AI env (context_window env s m) = AiThrows"
  shows "fst (handleChat request env) = json (JObj [(js ''error'', JStr (js ''Internal error''))]) 500 \<and>
         CHAT_KV (snd (handleChat request env)) = CHAT_KV env \<and>
         stored_history (snd (handleChat request env)) sid = stored_history env sid \<and>
         trace (snd (handleChat request env))
           = trace env @ [KvGet (sessionKey s), AiRun (context_window env s m)] \<and>
         last (context_window env s m) = obj \<lparr>role = user, content = trim m\<rparr>"
  using assms by (simp add: handleChat_accepted_throws last_context_window)

lemma context_window_fresh:
  "CHAT_KV env (sessionKey s) = None \<Longrightarrow>
   context_window env s m
     = [obj \<lparr>role = system, content = trim SYSTEM_PROMPT\<rparr>, obj \<lparr>role = user, content = trim m\<rparr>]"
  by (simp add: context_window_def stored_history_def loadHistory_def trimHistory_def MAX_HISTORY_MESSAGES_def)

theorem inference_failure_persists_nothing_witness:
  "accepted (chat_request (js ''s1'') (js ''hi'')) = Some (js ''s1'', js ''hi'') \<and>
   AI (stored_env ai_down (js ''s1'') (IsJson (JArr (transcript_of 2))))
      (context_window (stored_env ai_down (js ''s1'') (IsJson (JArr (transcript_of 2))))
         (js ''s1'') (js ''hi'')) = AiThrows \<and>
   status (fst (handleChat (chat_request (js ''s1'') (js ''hi''))
                  (stored_env ai_down (js ''s1'') (IsJson (JArr (transcript_of 2)))))) = 500 \<and>
   stored_history (stored_env ai_down (js ''s1'') (IsJson (JArr (transcript_of 2)))) (js ''s1'')
     = transcript_of 2 \<and>
   stored_history
      (snd (handleChat (chat_request (js ''s1'') (js ''hi''))
              (stored_env ai_down (js ''s1'') (IsJson (JArr (transcript_of 2))))))
      (js ''s1'') = transcript_of 2"
proof -
  let ?env = "stored_env ai_down (js ''s1'') (IsJson (JArr (transcript_of 2)))"
  let ?req = "chat_request (js ''s1'') (js ''hi'')"
  have a: "accepted ?req = Some (js ''s1'', js ''hi'')"
    by (simp add: accepted_chat_request js_def)
  have t: "AI ?env (context_window ?env (js ''s1'') (js ''hi'')) = AiThrows"
    by (simp add: stored_env_def ai_down_def)
  have h: "stored_history ?env (js ''s1'') = transcript_of 2"
    by (simp add: stored_env_def stored_history_def loadHistory_def)
  from inference_failure_persists_nothing [OF a t, of "js ''s1''"] a t h show ?thesis
    by (simp add: json_def)
qed

section \<open>Requests that are rejected\<close>

text \<open>
  C10. A request whose body is not JSON (\<open>request.json()\<close> throws) gets the internal
  error, status 500 and body \<open>{"error": "Internal error"}\<close>, not a response of
  status 400; nothing is read from or written to the store and the model is not
  called.
\<close>

theorem unparseable_body_internal_error:
  assumes "body request = Empty \<or> body request = NotJson"
  shows "handleChat request env =
           (json (JObj [(js ''error'', JStr (js ''Internal error''))]) 500,
            env\<lparr>console := console env @ [SyntaxError]\<rparr>) \<and>
         status (fst (handleChat request env)) = 500 \<and>
         payload (fst (handleChat request env))
           = IsJson (JObj [(js ''error'', JStr (js ''Internal error''))]) \<and>
         trace (snd (handleChat request env)) = trace env \<and>
         CHAT_KV (snd (handleChat request env)) = CHAT_KV env"
  using assms by (auto simp: handleChat_def try_chat_def request_json_def json_def)

theorem unparseable_body_internal_error_witness:
  "(body \<lparr>body = NotJson\<rparr> = Empty \<or> body \<lparr>body = NotJson\<rparr> = NotJson) \<and>
   handleChat \<lparr>body = NotJson\<rparr> (fresh_env ai_silent) =
     (json (JObj [(js ''error'', JStr (js ''Internal error''))]) 500,
      \<lparr>AI = ai_silent, CHAT_KV = Map.empty, trace = [], console = [SyntaxError]\<rparr>) \<and>
   status (fst (handleChat \<lparr>body = NotJson\<rparr> (fresh_env ai_silent))) = 500 \<and>
   payload (fst (handleChat \<lparr>body = NotJson\<rparr> (fresh_env ai_silent)))
     = IsJson (JObj [(js ''error'', JStr (js ''Internal error''))]) \<and>
   trace (snd (handleChat \<lparr>body = NotJson\<rparr> (fresh_env ai_silent))) = [] \<and>
   CHAT_KV (snd (handleChat \<lparr>body = NotJson\<rparr> (fresh_env ai_silent))) = Map.empty"
proof -
  have h: "body \<lparr>body = NotJson\<rparr> = Empty \<or> body \<lparr>body = NotJson\<rparr> = NotJson" by simp
  from unparseable_body_internal_error [OF h, of "fresh_env ai_silent"] h show ?thesis
    by (simp add: fresh_env_def json_def)
qed

text \<open>
  The checks of lines 63 to 68 on a body that is JSON and on which both fields can
  be read (any value but \<open>null\<close>): if \<open>sessionId\<close> is not a non-empty string, the
  answer has status 400 and the body \<open>{"error": "Missing or invalid sessionId"}\<close>;
  otherwise, if \<open>message\<close> is not a non-empty string, it has status 400 and the body
  \<open>{"error": "Missing or invalid message"}\<close>. In both cases nothing at all has
  happened to the store, the model or the console.
\<close>

theorem invalid_fields_bad_request:
  assumes "body request = IsJson b"
    and "member b (js ''sessionId'') = Inr sid"
    and "member b (js ''message'') = Inr msg"
  shows "((\<nexists>s. sid = Some (JStr s) \<and> s \<noteq> []) \<longrightarrow>
            handleChat request env =
              (json (JObj [(js ''error'', JStr (js ''Missing or invalid sessionId''))]) 400, env) \<and>
            status (fst (handleChat request env)) = 400 \<and>
            payload (fst (handleChat request env))
              = IsJson (JObj [(js ''error'', JStr (js ''Missing or invalid sessionId''))])) \<and>
         ((\<exists>s. sid = Some (JStr s) \<and> s \<noteq> []) \<and> (\<nexists>m. msg = Some (JStr m) \<and> m \<noteq> []) \<longrightarrow>
            handleChat request env =
              (json (JObj [(js ''error'', JStr (js ''Missing or invalid message''))]) 400, env) \<and>
            status (fst (handleChat request env)) = 400 \<and>
            payload (fst (handleChat request env))
              = IsJson (JObj [(js ''error'', JStr (js ''Missing or invalid message''))]))"
  using assms checks_pass_iff [of sid] checks_pass_iff [of msg]
  by (auto simp: handleChat_def try_chat_def request_json_def json_def)

lemma member_not_null: "b \<noteq> JNull \<Longrightarrow> \<exists>v. member b k = Inr v"
  by (cases b) auto

theorem invalid_fields_bad_request_witness:
  "status (fst (handleChat
       \<lparr>body = IsJson (JObj [(js ''sessionId'', JStr []), (js ''message'', JStr (js ''hi''))])\<rparr>
       (fresh_env ai_silent))) = 400 \<and>
   payload (fst (handleChat
       \<lparr>body = IsJson (JObj [(js ''sessionId'', JStr []), (js ''message'', JStr (js ''hi''))])\<rparr>
       (fresh_env ai_silent)))
     = IsJson (JObj [(js ''error'', JStr (js ''Missing or invalid sessionId''))]) \<and>
   snd (handleChat
       \<lparr>body = IsJson (JObj [(js ''sessionId'', JStr []), (js ''message'', JStr (js ''hi''))])\<rparr>
       (fresh_env ai_silent)) = fresh_env ai_silent \<and>
   status (fst (handleChat \<lparr>body = IsJson (JObj [(js ''sessionId'', JStr (js ''s1''))])\<rparr>
       (fresh_env ai_silent))) = 400 \<and>
   payload (fst (handleChat \<lparr>body = IsJson (JObj [(js ''sessionId'', JStr (js ''s1''))])\<rparr>
       (fresh_env ai_silent)))
     = IsJson (JObj [(js ''error'', JStr (js ''Missing or invalid message''))]) \<and>
   snd (handleChat \<lparr>body = IsJson (JObj [(js ''sessionId'', JStr (js ''s1''))])\<rparr>
       (fresh_env ai_silent)) = fresh_env ai_silent"
proof -
  let ?b1 = "JObj [(js ''sessionId'', JStr []), (js ''message'', JStr (js ''hi''))]"
  let ?b2 = "JObj [(js ''sessionId'', JStr (js ''s1''))]"
  have 1: "body \<lparr>body = IsJson ?b1\<rparr> = IsJson ?b1" by simp
  have 2: "member ?b1 (js ''sessionId'') = Inr (Some (JStr []))" by (simp add: js_def)
  have 3: "member ?b1 (js ''message'') = Inr (Some (JStr (js ''hi'')))" by (simp add: js_def)
  have 4: "body \<lparr>body = IsJson ?b2\<rparr> = IsJson ?b2" by simp
  have 5: "member ?b2 (js ''sessionId'') = Inr (Some (JStr (js ''s1'')))" by (simp add: js_def)
  have 6: "member ?b2 (js ''message'') = Inr None" by (simp add: js_def)
  from invalid_fields_bad_request [OF 1 2 3, of "fresh_env ai_silent"]
       invalid_fields_bad_request [OF 4 5 6, of "fresh_env ai_silent"]
  show ?thesis by (simp add: js_def json_def)
qed

text \<open>
  C9. The claim asks for status 400 with the reason naming \<open>sessionId\<close> whenever the
  request has no usable \<open>sessionId\<close>, and the handler gives it for the bodies \<open>{}\<close>
  and \<open>"hello"\<close>. The body \<open>null\<close> is JSON too and has no \<open>sessionId\<close>, but the
  read \<open>body.sessionId\<close> of line 63 throws on it: the answer is the internal error,
  status 500 and body \<open>{"error": "Internal error"}\<close>. Neither the store nor the model
  is reached in any of the three cases.
\<close>

theorem null_body_internal_error:
  "handleChat \<lparr>body = IsJson JNull\<rparr> (fresh_env ai_silent) =
     (json (JObj [(js ''error'', JStr (js ''Internal error''))]) 500,
      \<lparr>AI = ai_silent, CHAT_KV = Map.empty, trace = [], console = [TypeError]\<rparr>) \<and>
   status (fst (handleChat \<lparr>body = IsJson JNull\<rparr> (fresh_env ai_silent))) = 500 \<and>
   payload (fst (handleChat \<lparr>body = IsJson JNull\<rparr> (fresh_env ai_silent)))
     = IsJson (JObj [(js ''error'', JStr (js ''Internal error''))]) \<and>
   trace (snd (handleChat \<lparr>body = IsJson JNull\<rparr> (fresh_env ai_silent))) = [] \<and>
   status (fst (handleChat \<lparr>body = IsJson (JObj [])\<rparr> (fresh_env ai_silent))) = 400 \<and>
   payload (fst (handleChat \<lparr>body = IsJson (JObj [])\<rparr> (fresh_env ai_silent)))
     = IsJson (JObj [(js ''error'', JStr (js ''Missing or invalid sessionId''))]) \<and>
   trace (snd (handleChat \<lparr>body = IsJson (JObj [])\<rparr> (fresh_env ai_silent))) = [] \<and>
   status (fst (handleChat \<lparr>body = IsJson (JStr (js ''hello''))\<rparr> (fresh_env ai_silent))) = 400 \<and>
   payload (fst (handleChat \<lparr>body = IsJson (JStr (js ''hello''))\<rparr> (fresh_env ai_silent)))
     = IsJson (JObj [(js ''error'', JStr (js ''Missing or invalid sessionId''))]) \<and>
   trace (snd (handleChat \<lparr>body = IsJson (JStr (js ''hello''))\<rparr> (fresh_env ai_silent))) = []"
  by (simp add: handleChat_def try_chat_def request_json_def fresh_env_def json_def)

text \<open>
  C6. A message of three spaces is not empty, so it passes the check of line 66, and
  only then is it trimmed: the store is read, the model is called with a user turn
  whose content is the empty string, and that turn is stored. The answer has status
  200.
\<close>

theorem whitespace_message_reaches_model:
  "accepted (chat_request (js ''s1'') (js ''   '')) = Some (js ''s1'', js ''   '') \<and>
   trim (js ''   '') = [] \<and>
   handleChat (chat_request (js ''s1'') (js ''   '')) (fresh_env ai_silent) =
     (json (JObj [(js ''reply'', JStr (js ''[no response]'')),
                  (js ''history'', JArr [obj \<lparr>role = system, content = trim SYSTEM_PROMPT\<rparr>,
                                          obj \<lparr>role = user, content = []\<rparr>,
                                          obj \<lparr>role = assistant, content = js ''[no response]''\<rparr>])]) 200,
      \<lparr>AI = ai_silent,
       CHAT_KV = [sessionKey (js ''s1'') \<mapsto>
                    IsJson (JArr [obj \<lparr>role = system, content = trim SYSTEM_PROMPT\<rparr>,
                                  obj \<lparr>role = user, content = []\<rparr>,
                                  obj \<lparr>role = assistant, content = js ''[no response]''\<rparr>])],
       trace = [KvGet (sessionKey (js ''s1'')),
                AiRun [obj \<lparr>role = system, content = trim SYSTEM_PROMPT\<rparr>,
                       obj \<lparr>role = user, content = []\<rparr>],
                KvPut (sessionKey (js ''s1''))
                  (IsJson (JArr [obj \<lparr>role = system, content = trim SYSTEM_PROMPT\<rparr>,
                                 obj \<lparr>role = user, content = []\<rparr>,
                                 obj \<lparr>role = assistant, content = js ''[no response]''\<rparr>])) 604800],
       console = []\<rparr>)"
proof -
  have a: "accepted (chat_request (js ''s1'') (js ''   '')) = Some (js ''s1'', js ''   '')"
    by (simp add: accepted_chat_request js_def)
  have t: "trim (js ''   '') = []"
    by (simp add: js_def trim_def is_ws_def)
  have w: "context_window (fresh_env ai_silent) (js ''s1'') (js ''   '')
      = [obj \<lparr>role = system, content = trim SYSTEM_PROMPT\<rparr>, obj \<lparr>role = user, content = []\<rparr>]"
    by (simp add: context_window_fresh fresh_env_def t)
  have r: "AI (fresh_env ai_silent) (context_window (fresh_env ai_silent) (js ''s1'') (js ''   ''))
      = AiResponse None"
    by (simp add: fresh_env_def ai_silent_def)
  have "handleChat (chat_request (js ''s1'') (js ''   '')) (fresh_env ai_silent) =
     (json (JObj [(js ''reply'', JStr (js ''[no response]'')),
                  (js ''history'', JArr [obj \<lparr>role = system, content = trim SYSTEM_PROMPT\<rparr>,
                                          obj \<lparr>role = user, content = []\<rparr>,
                                          obj \<lparr>role = assistant, content = js ''[no response]''\<rparr>])]) 200,
      (fresh_env ai_silent)
        \<lparr>CHAT_KV := (CHAT_KV (fresh_env ai_silent))(sessionKey (js ''s1'') \<mapsto>
                    IsJson (JArr [obj \<lparr>role = system, content = trim SYSTEM_PROMPT\<rparr>,
                                  obj \<lparr>role = user, content = []\<rparr>,
                                  obj \<lparr>role = assistant, content = js ''[no response]''\<rparr>])),
         trace := trace (fresh_env ai_silent) @
               [KvGet (sessionKey (js ''s1'')),
                AiRun [obj \<lparr>role = system, content = trim SYSTEM_PROMPT\<rparr>,
                       obj \<lparr>role = user, content = []\<rparr>],
                KvPut (sessionKey (js ''s1''))
                  (IsJson (JArr [obj \<lparr>role = system, content = trim SYSTEM_PROMPT\<rparr>,
                                 obj \<lparr>role = user, content = []\<rparr>,
                                 obj \<lparr>role = assistant, content = js ''[no response]''\<rparr>])) 604800]\<rparr>)"
    using handleChat_accepted_replies [OF a r] by (simp add: w reply_text_def)
  then show ?thesis
    using a t by (simp add: fresh_env_def)
qed

section \<open>The boundary of the window\<close>

text \<open>
  A transcript of the instruction turn and 17 other turns has 18 turns, one more
  than \<open>trimHistory\<close> leaves alone: turn 1 is dropped.
\<close>

theorem seventeen_turns_counterexample:
  "length (transcript_of 17) = 18 \<and>
   trimHistory (transcript_of 17) MAX_HISTORY_MESSAGES
     = obj \<lparr>role = system, content = trim SYSTEM_PROMPT\<rparr> # map turn_no [2 ..< 18] \<and>
   trimHistory (transcript_of 17) MAX_HISTORY_MESSAGES \<noteq> transcript_of 17"
proof -
  have len: "length (transcript_of 17) = 18" by (simp add: transcript_of_def)
  have "trimHistory (transcript_of 17) MAX_HISTORY_MESSAGES
     = obj \<lparr>role = system, content = trim SYSTEM_PROMPT\<rparr> # drop 1 (map turn_no [1 ..< 18])"
    by (simp add: transcript_of_def MAX_HISTORY_MESSAGES_def trimHistory_long)
  also have "drop 1 (map turn_no [1 ..< 18]) = map turn_no [2 ..< 18]"
    by (simp add: drop_map upt_rec turn_no_def)
  finally have eq: "trimHistory (transcript_of 17) MAX_HISTORY_MESSAGES
     = obj \<lparr>role = system, content = trim SYSTEM_PROMPT\<rparr> # map turn_no [2 ..< 18]" .
  have "length (trimHistory (transcript_of 17) MAX_HISTORY_MESSAGES) = 17"
    by (simp add: eq)
  with len have "trimHistory (transcript_of 17) MAX_HISTORY_MESSAGES \<noteq> transcript_of 17"
    by auto
  with len eq show ?thesis by blast
qed

text \<open>
  C4, as the code has it. With \<open>N = 16\<close>, a transcript of the instruction turn and
  exactly 16 other turns is not trimmed; with 17 other turns it is trimmed to the
  instruction turn and the 16 most recent, dropping the oldest one; with 18 it is
  trimmed to the instruction turn and the 16 most recent, dropping the oldest two.
\<close>

theorem window_boundary:
  "(length rest = 16 \<longrightarrow> trimHistory (s # rest) MAX_HISTORY_MESSAGES = s # rest) \<and>
   (length rest = 17 \<longrightarrow> trimHistory (s # rest) MAX_HISTORY_MESSAGES = s # drop 1 rest) \<and>
   (length rest = 18 \<longrightarrow> trimHistory (s # rest) MAX_HISTORY_MESSAGES = s # drop 2 rest)"
  by (simp add: MAX_HISTORY_MESSAGES_def trimHistory_long trimHistory_short)

theorem window_boundary_witness:
  "length (map turn_no [1 ..< 17]) = 16 \<and>
   trimHistory (transcript_of 16) MAX_HISTORY_MESSAGES = transcript_of 16 \<and>
   length (map turn_no [1 ..< 18]) = 17 \<and>
   trimHistory (transcript_of 17) MAX_HISTORY_MESSAGES
     = obj \<lparr>role = system, content = trim SYSTEM_PROMPT\<rparr> # map turn_no [2 ..< 18] \<and>
   length (map turn_no [1 ..< 19]) = 18 \<and>
   trimHistory (transcript_of 18) MAX_HISTORY_MESSAGES
     = obj \<lparr>role = system, content = trim SYSTEM_PROMPT\<rparr> # map turn_no [3 ..< 19]"
proof -
  let ?s = "obj \<lparr>role = system, content = trim SYSTEM_PROMPT\<rparr>"
  have a: "length (map turn_no [1 ..< 17]) = 16" by simp
  have b: "length (map turn_no [1 ..< 18]) = 17" by simp
  have c: "length (map turn_no [1 ..< 19]) = 18" by simp
  have d: "drop 1 (map turn_no [1 ..< 18]) = map turn_no [2 ..< 18]"
    by (simp add: drop_map upt_rec turn_no_def)
  have e: "drop 2 (map turn_no [1 ..< 19]) = map turn_no [3 ..< 19]"
    by (simp add: drop_map upt_rec turn_no_def)
  have t16: "transcript_of 16 = ?s # map turn_no [1 ..< 17]" by (simp add: transcript_of_def)
  have t17: "transcript_of 17 = ?s # map turn_no [1 ..< 18]" by (simp add: transcript_of_def)
  have t18: "transcript_of 18 = ?s # map turn_no [1 ..< 19]" by (simp add: transcript_of_def)
  from window_boundary [of "map turn_no [1 ..< 17]" ?s] a
  have "trimHistory (?s # map turn_no [1 ..< 17]) MAX_HISTORY_MESSAGES = ?s # map turn_no [1 ..< 17]"
    by blast
  then have 1: "trimHistory (transcript_of 16) MAX_HISTORY_MESSAGES = transcript_of 16"
    by (simp only: t16)
  from window_boundary [of "map turn_no [1 ..< 18]" ?s] b
  have "trimHistory (?s # map turn_no [1 ..< 18]) MAX_HISTORY_MESSAGES
      = ?s # drop 1 (map turn_no [1 ..< 18])"
    by blast
  then have 2: "trimHistory (transcript_of 17) MAX_HISTORY_MESSAGES = ?s # map turn_no [2 ..< 18]"
    by (simp only: t17 d)
  from window_boundary [of "map turn_no [1 ..< 19]" ?s] c
  have "trimHistory (?s # map turn_no [1 ..< 19]) MAX_HISTORY_MESSAGES
      = ?s # drop 2 (map turn_no [1 ..< 19])"
    by blast
  then have 3: "trimHistory (transcript_of 18) MAX_HISTORY_MESSAGES = ?s # map turn_no [3 ..< 19]"
    by (simp only: t18 e)
  from a b c 1 2 3 show ?thesis by blast
qed

section \<open>What a call does to the stored transcripts\<close>

lemma role_name_inj: "(role_name a = role_name b) = (a = b)"
  by (cases a; cases b) (simp_all add: js_def)

lemma has_role_obj: "has_role r (obj m) = (role m = r)"
  by (auto simp: has_role_def obj_def js_def role_name_inj)

lemma stored_history_cong:
  "CHAT_KV e1 = CHAT_KV e2 \<Longrightarrow> stored_history e1 sid = stored_history e2 sid"
  by (simp add: stored_history_def loadHistory_def)

lemma handleChat_not_accepted:
  "accepted request = None \<Longrightarrow> CHAT_KV (snd (handleChat request env)) = CHAT_KV env"
  using try_chat_not_accepted [of request env]
  by (cases "try_chat request env") (auto simp: handleChat_def split: sum.splits)

lemma handleChat_not_accepted_status:
  "accepted request = None \<Longrightarrow> status (fst (handleChat request env)) \<noteq> 200"
  by (auto simp: accepted_def handleChat_def try_chat_def json_def split: sum.splits if_splits)

text \<open>
  After a call, the transcript of a session is the window of the call followed by
  the assistant's turn, when the call was accepted for that session and the model
  replied; in every other case it is what it was.
\<close>

lemma stored_history_handleChat:
  "stored_history (snd (handleChat request env)) sid =
     (case accepted request of
        None \<Rightarrow> stored_history env sid
      | Some (s, m) \<Rightarrow>
          (case AI env (context_window env s m) of
             AiThrows \<Rightarrow> stored_history env sid
           | AiResponse r \<Rightarrow>
               if sid = s
               then context_window env s m @ [obj \<lparr>role = assistant, content = reply_text r\<rparr>]
               else stored_history env sid))"
proof (cases "accepted request")
  case None
  then show ?thesis
    by (simp add: stored_history_cong [OF handleChat_not_accepted])
next
  case (Some p)
  obtain s m where p: "p = (s, m)" by (cases p)
  show ?thesis
  proof (cases "AI env (context_window env s m)")
    case AiThrows
    with Some p show ?thesis by (simp add: handleChat_accepted_throws)
  next
    case (AiResponse r)
    with Some p show ?thesis
      by (simp add: handleChat_accepted_replies stored_history_def loadHistory_def sessionKey_inj)
  qed
qed

lemma status_handleChat:
  "(status (fst (handleChat request env)) = 200) =
     (\<exists>s m r. accepted request = Some (s, m) \<and> AI env (context_window env s m) = AiResponse r)"
proof (cases "accepted request")
  case None
  then show ?thesis by (simp add: handleChat_not_accepted_status)
next
  case (Some p)
  obtain s m where p: "p = (s, m)" by (cases p)
  show ?thesis
  proof (cases "AI env (context_window env s m)")
    case AiThrows
    with Some p show ?thesis by (simp add: handleChat_accepted_throws json_def)
  next
    case (AiResponse r)
    with Some p show ?thesis by (simp add: handleChat_accepted_replies json_def)
  qed
qed

lemma trimHistory_Cons:
  "0 < n \<Longrightarrow> \<exists>k. trimHistory (x # xs) n = x # drop k xs"
proof (cases "length (x # xs) \<le> n + 1")
  case True
  then have "trimHistory (x # xs) n = x # drop 0 xs" by (simp add: trimHistory_short)
  then show ?thesis by blast
next
  case False
  assume "0 < n"
  with False have "trimHistory (x # xs) n = x # drop (length xs - n) xs"
    by (simp add: trimHistory_long)
  then show ?thesis by blast
qed

lemma list_all_drop: "list_all P xs \<Longrightarrow> list_all P (drop k xs)"
  by (auto simp: list_all_iff dest: in_set_dropD)

lemma instruction_first_window:
  assumes "instruction_first (stored_history env s)"
  shows "instruction_first (context_window env s m @ [obj \<lparr>role = assistant, content = r\<rparr>])"
proof (cases "stored_history env s")
  case Nil
  then show ?thesis
    by (simp add: context_window_def trimHistory_short MAX_HISTORY_MESSAGES_def
        instruction_first_def has_role_obj)
next
  case (Cons x xs)
  with assms have x: "has_role system x" and xs: "list_all (\<lambda>v. \<not> has_role system v) xs"
    by (simp_all add: instruction_first_def)
  from Cons have "context_window env s m
      = trimHistory (x # (xs @ [obj \<lparr>role = user, content = trim m\<rparr>])) MAX_HISTORY_MESSAGES"
    by (simp add: context_window_def)
  with trimHistory_Cons [of MAX_HISTORY_MESSAGES x "xs @ [obj \<lparr>role = user, content = trim m\<rparr>]"]
  obtain k where k: "context_window env s m = x # drop k (xs @ [obj \<lparr>role = user, content = trim m\<rparr>])"
    by (auto simp: MAX_HISTORY_MESSAGES_def)
  have "list_all (\<lambda>v. \<not> has_role system v) (xs @ [obj \<lparr>role = user, content = trim m\<rparr>])"
    using xs by (simp add: has_role_obj)
  then have "list_all (\<lambda>v. \<not> has_role system v) (drop k (xs @ [obj \<lparr>role = user, content = trim m\<rparr>]))"
    by (rule list_all_drop)
  with x show ?thesis
    by (simp add: k instruction_first_def has_role_obj)
qed

lemma instruction_first_handleChat:
  assumes "\<And>sid. instruction_first (stored_history env sid)"
  shows "instruction_first (stored_history (snd (handleChat request env)) sid)"
  using assms
  by (auto simp: stored_history_handleChat instruction_first_window
      split: option.splits ai_result.splits)

lemma instruction_first_serve:
  "(\<And>sid. instruction_first (stored_history env sid)) \<Longrightarrow>
   instruction_first (stored_history (serve calls env) sid)"
proof (induction calls arbitrary: env sid)
  case Nil
  then show ?case by simp
next
  case (Cons call calls)
  obtain request ai where call: "call = (request, ai)" by (cases call)
  have "\<And>sid. instruction_first (stored_history (snd (handleChat request (env\<lparr>AI := ai\<rparr>))) sid)"
    by (rule instruction_first_handleChat) (simp add: Cons.prems)
  then show ?case
    by (simp add: call Cons.IH)
qed

lemma instruction_first_once:
  "instruction_first h \<Longrightarrow> length (filter (has_role system) h) \<le> 1"
  by (cases h) (auto simp: instruction_first_def list_all_iff filter_empty_conv)

lemma context_window_nonempty:
  "stored_history env s \<noteq> [] \<Longrightarrow>
   context_window env s m
     = trimHistory (stored_history env s @ [obj \<lparr>role = user, content = trim m\<rparr>]) MAX_HISTORY_MESSAGES"
  by (simp add: context_window_def)

lemma context_window_empty:
  "stored_history env s = [] \<Longrightarrow>
   context_window env s m
     = [obj \<lparr>role = system, content = trim SYSTEM_PROMPT\<rparr>, obj \<lparr>role = user, content = trim m\<rparr>]"
  by (simp add: context_window_def trimHistory_short MAX_HISTORY_MESSAGES_def)

lemma context_window_AI [simp]: "context_window (env\<lparr>AI := a\<rparr>) s m = context_window env s m"
  by (simp add: context_window_def)

text \<open>
  C3. If every transcript in the store is empty or has the instruction turn at
  position 0 and nowhere else (as in an empty store), then so has every transcript
  after any sequence of calls: it holds at most one instruction turn. The
  instruction turn is seeded only when the loaded transcript is empty: on a
  transcript that is not empty the window is the trimmed transcript with the user's
  turn, with nothing put in front.
\<close>

theorem instruction_turn_first_and_only:
  assumes "\<forall>sid. instruction_first (stored_history env sid)"
  shows "instruction_first (stored_history (serve calls env) sid) \<and>
         length (filter (has_role system) (stored_history (serve calls env) sid)) \<le> 1 \<and>
         (stored_history env sid = [] \<longrightarrow>
            context_window env sid m
              = [obj \<lparr>role = system, content = trim SYSTEM_PROMPT\<rparr>,
                 obj \<lparr>role = user, content = trim m\<rparr>]) \<and>
         (stored_history env sid \<noteq> [] \<longrightarrow>
            context_window env sid m
              = trimHistory (stored_history env sid @ [obj \<lparr>role = user, content = trim m\<rparr>])
                  MAX_HISTORY_MESSAGES)"
proof -
  from assms have "instruction_first (stored_history (serve calls env) sid)"
    by (intro instruction_first_serve) simp
  moreover from this have "length (filter (has_role system) (stored_history (serve calls env) sid)) \<le> 1"
    by (rule instruction_first_once)
  ultimately show ?thesis
    by (simp add: context_window_empty context_window_nonempty)
qed

lemma stored_history_fresh: "stored_history (fresh_env ai) sid = []"
  by (simp add: fresh_env_def stored_history_def loadHistory_def)

lemma trim_plain: "trim (js ''hi'') = js ''hi''" "trim (js ''more'') = js ''more''"
  by (simp_all add: js_def trim_def is_ws_def)

theorem instruction_turn_first_and_only_witness:
  "(\<forall>sid. instruction_first (stored_history (fresh_env ai_silent) sid)) \<and>
   stored_history (fresh_env ai_silent) (js ''s1'') = [] \<and>
   context_window (fresh_env ai_silent) (js ''s1'') (js ''hi'')
     = [obj \<lparr>role = system, content = trim SYSTEM_PROMPT\<rparr>,
        obj \<lparr>role = user, content = js ''hi''\<rparr>] \<and>
   stored_history
     (serve [(chat_request (js ''s1'') (js ''hi''), ai_says (js ''ok'')),
             (chat_request (js ''s1'') (js ''more''), ai_silent)] (fresh_env ai_silent)) (js ''s1'')
     = [obj \<lparr>role = system, content = trim SYSTEM_PROMPT\<rparr>,
        obj \<lparr>role = user, content = js ''hi''\<rparr>,
        obj \<lparr>role = assistant, content = js ''ok''\<rparr>,
        obj \<lparr>role = user, content = js ''more''\<rparr>,
        obj \<lparr>role = assistant, content = js ''[no response]''\<rparr>] \<and>
   instruction_first
     (stored_history
       (serve [(chat_request (js ''s1'') (js ''hi''), ai_says (js ''ok'')),
               (chat_request (js ''s1'') (js ''more''), ai_silent)] (fresh_env ai_silent)) (js ''s1''))"
proof -
  let ?calls = "[(chat_request (js ''s1'') (js ''hi''), ai_says (js ''ok'')),
                 (chat_request (js ''s1'') (js ''more''), ai_silent)]"
  have h: "\<forall>sid. instruction_first (stored_history (fresh_env ai_silent) sid)"
    by (simp add: stored_history_fresh instruction_first_def)
  have s1: "js ''s1'' \<noteq> []" "js ''hi'' \<noteq> []" "js ''more'' \<noteq> []"
    by (simp_all add: js_def)
  have e: "stored_history (serve ?calls (fresh_env ai_silent)) (js ''s1'')
     = [obj \<lparr>role = system, content = trim SYSTEM_PROMPT\<rparr>,
        obj \<lparr>role = user, content = js ''hi''\<rparr>,
        obj \<lparr>role = assistant, content = js ''ok''\<rparr>,
        obj \<lparr>role = user, content = js ''more''\<rparr>,
        obj \<lparr>role = assistant, content = js ''[no response]''\<rparr>]"
    by (simp add: stored_history_handleChat accepted_chat_request s1 context_window_def
        stored_history_fresh ai_says_def ai_silent_def reply_text_def trim_plain
        trimHistory_short MAX_HISTORY_MESSAGES_def)
  have f: "stored_history (fresh_env ai_silent) (js ''s1'') = []"
    by (simp add: stored_history_fresh)
  note inst = instruction_turn_first_and_only [OF h, of ?calls "js ''s1''" "js ''hi''"]
  from inst f have "context_window (fresh_env ai_silent) (js ''s1'') (js ''hi'')
     = [obj \<lparr>role = system, content = trim SYSTEM_PROMPT\<rparr>,
        obj \<lparr>role = user, content = trim (js ''hi'')\<rparr>]"
    by blast
  then have w: "context_window (fresh_env ai_silent) (js ''s1'') (js ''hi'')
     = [obj \<lparr>role = system, content = trim SYSTEM_PROMPT\<rparr>,
        obj \<lparr>role = user, content = js ''hi''\<rparr>]"
    by (simp add: trim_plain)
  from inst have "instruction_first (stored_history (serve ?calls (fresh_env ai_silent)) (js ''s1''))"
    by blast
  with h f w e show ?thesis by blast
qed

section \<open>The size of the stored transcript\<close>

lemma length_trimHistory_eq: "0 < n \<Longrightarrow> length (trimHistory h n) = min (length h) (n + 1)"
proof (cases "length h \<le> n + 1")
  case True
  then show ?thesis by (simp add: trimHistory_short)
next
  case False
  then obtain x xs where h: "h = x # xs" by (cases h) auto
  assume "0 < n"
  with False h show ?thesis by (simp add: trimHistory_long)
qed

lemma length_context_window:
  "length (context_window env s m) = min (max (length (stored_history env s)) 1 + 1) 17"
  by (cases "stored_history env s")
    (simp_all add: context_window_def Let_def length_trimHistory_eq MAX_HISTORY_MESSAGES_def)

lemma length_stored_handleChat:
  "length (stored_history env sid) \<le> 18 \<Longrightarrow>
   length (stored_history (snd (handleChat request env)) sid) \<le> 18"
  by (auto simp: stored_history_handleChat length_context_window
      split: option.splits ai_result.splits)

lemma length_stored_serve:
  "(\<And>sid. length (stored_history env sid) \<le> 18) \<Longrightarrow>
   length (stored_history (serve calls env) sid) \<le> 18"
proof (induction calls arbitrary: env sid)
  case Nil
  then show ?case by simp
next
  case (Cons call calls)
  obtain request ai where call: "call = (request, ai)" by (cases call)
  have "\<And>sid. length (stored_history (snd (handleChat request (env\<lparr>AI := ai\<rparr>))) sid) \<le> 18"
    by (rule length_stored_handleChat) (simp add: Cons.prems)
  then show ?case
    by (simp add: call Cons.IH)
qed

text \<open>
  C8. After a successful call the stored transcript of its session is the window
  handed to the model, of at most \<open>N + 1 = 17\<close> turns, followed by the assistant's
  turn: at most \<open>N + 2 = 18\<close> turns, whatever calls came before. Its length is the
  length before the call (1 for the seeded instruction turn when that was 0) plus 2,
  capped at 18. And when no stored transcript is longer than 18, none is after any
  sequence of calls.
\<close>

theorem persisted_transcript_bounded:
  "MAX_HISTORY_MESSAGES + 2 = 18 \<and>
   (handleChat request ((serve calls env)\<lparr>AI := ai\<rparr>) = (response, env') \<and>
    status response = 200 \<and> accepted request = Some (s, m) \<longrightarrow>
      (\<exists>reply. stored_history env' s = context_window (serve calls env) s m @ [reply]) \<and>
      length (context_window (serve calls env) s m) \<le> MAX_HISTORY_MESSAGES + 1 \<and>
      length (stored_history env' s)
        = min (max (length (stored_history (serve calls env) s)) 1 + 2) 18 \<and>
      length (stored_history env' s) \<le> MAX_HISTORY_MESSAGES + 2) \<and>
   ((\<forall>sid. length (stored_history env sid) \<le> MAX_HISTORY_MESSAGES + 2) \<longrightarrow>
      length (stored_history (serve calls env) sid) \<le> MAX_HISTORY_MESSAGES + 2)"
proof (intro conjI impI)
  show "MAX_HISTORY_MESSAGES + 2 = 18" by (simp add: MAX_HISTORY_MESSAGES_def)
next
  assume "\<forall>sid. length (stored_history env sid) \<le> MAX_HISTORY_MESSAGES + 2"
  then show "length (stored_history (serve calls env) sid) \<le> MAX_HISTORY_MESSAGES + 2"
    by (simp add: MAX_HISTORY_MESSAGES_def length_stored_serve)
next
  let ?env = "(serve calls env)\<lparr>AI := ai\<rparr>"
  assume a: "handleChat request ?env = (response, env') \<and>
    status response = 200 \<and> accepted request = Some (s, m)"
  then have ok: "status (fst (handleChat request ?env)) = 200"
    and env': "env' = snd (handleChat request ?env)"
    and acc: "accepted request = Some (s, m)"
    by simp_all
  from ok acc obtain r where r: "AI ?env (context_window ?env s m) = AiResponse r"
    by (auto simp: status_handleChat)
  have stored: "stored_history env' s
      = context_window (serve calls env) s m @ [obj \<lparr>role = assistant, content = reply_text r\<rparr>]"
    using acc r by (simp add: env' stored_history_handleChat)
  show "\<exists>reply. stored_history env' s = context_window (serve calls env) s m @ [reply]"
    using stored by blast
  show "length (context_window (serve calls env) s m) \<le> MAX_HISTORY_MESSAGES + 1"
    by (simp add: length_context_window MAX_HISTORY_MESSAGES_def)
  show "length (stored_history env' s)
        = min (max (length (stored_history (serve calls env) s)) 1 + 2) 18"
    by (simp add: stored length_context_window)
  show "length (stored_history env' s) \<le> MAX_HISTORY_MESSAGES + 2"
    by (simp add: stored length_context_window MAX_HISTORY_MESSAGES_def)
qed

text \<open>
  The same exchange repeated \<open>k\<close> times from a transcript of length \<open>l\<close>: the
  stored transcript grows by two turns a call and stays at 18.
\<close>

lemma length_after_exchanges:
  assumes "s \<noteq> []" and "m \<noteq> []"
  shows "length (stored_history (serve (replicate k (chat_request s m, ai_says t)) env) s)
     = (if k = 0 then length (stored_history env s)
        else min (max (length (stored_history env s)) 1 + 2 * k) 18)"
proof (induction k arbitrary: env)
  case 0
  then show ?case by simp
next
  case (Suc k)
  let ?env = "snd (handleChat (chat_request s m) (env\<lparr>AI := ai_says t\<rparr>))"
  have "length (stored_history ?env s) = min (max (length (stored_history env s)) 1 + 2) 18"
    using assms
    by (simp add: stored_history_handleChat accepted_chat_request ai_says_def length_context_window)
  then show ?case
    by (simp add: Suc.IH [of ?env] min_def max_def)
qed

theorem persisted_transcript_bounded_witness:
  "(\<forall>sid. length (stored_history (fresh_env ai_silent) sid) \<le> MAX_HISTORY_MESSAGES + 2) \<and>
   handleChat (chat_request (js ''s1'') (js ''hi''))
      ((serve (replicate 20 (chat_request (js ''s1'') (js ''hi''), ai_says (js ''ok''))) (fresh_env ai_silent))
         \<lparr>AI := ai_silent\<rparr>)
     = (fst (handleChat (chat_request (js ''s1'') (js ''hi''))
          ((serve (replicate 20 (chat_request (js ''s1'') (js ''hi''), ai_says (js ''ok''))) (fresh_env ai_silent))
             \<lparr>AI := ai_silent\<rparr>)),
        snd (handleChat (chat_request (js ''s1'') (js ''hi''))
          ((serve (replicate 20 (chat_request (js ''s1'') (js ''hi''), ai_says (js ''ok''))) (fresh_env ai_silent))
             \<lparr>AI := ai_silent\<rparr>))) \<and>
   status (fst (handleChat (chat_request (js ''s1'') (js ''hi''))
          ((serve (replicate 20 (chat_request (js ''s1'') (js ''hi''), ai_says (js ''ok''))) (fresh_env ai_silent))
             \<lparr>AI := ai_silent\<rparr>))) = 200 \<and>
   accepted (chat_request (js ''s1'') (js ''hi'')) = Some (js ''s1'', js ''hi'') \<and>
   length (stored_history
     (serve (replicate 20 (chat_request (js ''s1'') (js ''hi''), ai_says (js ''ok''))) (fresh_env ai_silent))
     (js ''s1'')) = 18 \<and>
   length (stored_history
     (snd (handleChat (chat_request (js ''s1'') (js ''hi''))
          ((serve (replicate 20 (chat_request (js ''s1'') (js ''hi''), ai_says (js ''ok''))) (fresh_env ai_silent))
             \<lparr>AI := ai_silent\<rparr>)))
     (js ''s1'')) = 18"
proof -
  let ?calls = "replicate 20 (chat_request (js ''s1'') (js ''hi''), ai_says (js ''ok''))"
  let ?env = "(serve ?calls (fresh_env ai_silent))\<lparr>AI := ai_silent\<rparr>"
  let ?req = "chat_request (js ''s1'') (js ''hi'')"
  have ne: "js ''s1'' \<noteq> []" "js ''hi'' \<noteq> []" by (simp_all add: js_def)
  have pair: "handleChat ?req ?env = (fst (handleChat ?req ?env), snd (handleChat ?req ?env))"
    by simp
  have acc: "accepted ?req = Some (js ''s1'', js ''hi'')"
    by (simp add: accepted_chat_request ne)
  have ok: "status (fst (handleChat ?req ?env)) = 200"
    by (simp add: status_handleChat acc ai_silent_def)
  have before: "length (stored_history (serve ?calls (fresh_env ai_silent)) (js ''s1'')) = 18"
    by (simp add: length_after_exchanges [OF ne] stored_history_fresh)
  from persisted_transcript_bounded
    [where request = ?req and calls = ?calls and env = "fresh_env ai_silent" and ai = ai_silent
       and response = "fst (handleChat ?req ?env)" and env' = "snd (handleChat ?req ?env)"
       and s = "js ''s1''" and m = "js ''hi''"]
    pair ok acc before
  have "length (stored_history (snd (handleChat ?req ?env)) (js ''s1'')) = 18"
    by simp
  moreover have "\<forall>sid. length (stored_history (fresh_env ai_silent) sid) \<le> MAX_HISTORY_MESSAGES + 2"
    by (simp add: stored_history_fresh)
  ultimately show ?thesis using pair ok acc before by blast
qed

section \<open>Stored values that cannot be read\<close>

lemma unreadable_loads_empty:
  "unreadable (CHAT_KV env (sessionKey s)) \<Longrightarrow> stored_history env s = []"
  by (cases "CHAT_KV env (sessionKey s)" rule: unreadable.cases)
     (simp_all add: stored_history_def loadHistory_def)

lemma context_window_cong:
  "stored_history e1 s = stored_history e2 s \<Longrightarrow> context_window e1 s m = context_window e2 s m"
  by (simp add: context_window_def)

lemma handleChat_not_accepted_same:
  "accepted request = None \<Longrightarrow>
   fst (handleChat request e1) = fst (handleChat request e2) \<and>
   trace (snd (handleChat request e1)) = trace e1"
  by (auto simp: accepted_def handleChat_def try_chat_def split: sum.splits if_splits)

text \<open>
  Two workers with the same backend, the same trace and the same transcripts answer
  a request alike, and have the same trace and the same transcripts afterwards.
\<close>

lemma handleChat_same_transcripts:
  assumes ai: "AI e1 = AI e2" and tr: "trace e1 = trace e2"
    and st: "\<And>sid. stored_history e1 sid = stored_history e2 sid"
  shows "fst (handleChat request e1) = fst (handleChat request e2) \<and>
         trace (snd (handleChat request e1)) = trace (snd (handleChat request e2)) \<and>
         stored_history (snd (handleChat request e1)) sid
           = stored_history (snd (handleChat request e2)) sid"
proof (cases "accepted request")
  case None
  with tr st show ?thesis
    using handleChat_not_accepted_same [of request e1 e2] handleChat_not_accepted_same [of request e2 e1]
    by (simp add: stored_history_handleChat)
next
  case (Some p)
  obtain s m where p: "p = (s, m)" by (cases p)
  have w: "context_window e1 s m = context_window e2 s m"
    by (rule context_window_cong) (rule st)
  show ?thesis
  proof (cases "AI e2 (context_window e2 s m)")
    case AiThrows
    with Some p w ai tr st show ?thesis
      by (simp add: handleChat_accepted_throws)
  next
    case (AiResponse r)
    with Some p w ai tr st show ?thesis
      by (simp add: handleChat_accepted_replies stored_history_put)
  qed
qed

lemma stored_history_forget:
  "stored_history env s = [] \<Longrightarrow>
   stored_history (env\<lparr>CHAT_KV := (CHAT_KV env)(sessionKey s := None)\<rparr>) sid = stored_history env sid"
  by (auto simp: stored_history_def loadHistory_def sessionKey_inj)

text \<open>
  A stored array is returned as it is, whatever its elements: the stored text \<open>[1]\<close>
  is loaded as a transcript of one turn, and the model is handed that turn and the
  user's, with no instruction turn; for an absent session it is handed the
  instruction turn and the user's.
\<close>

theorem array_of_junk_counterexample:
  "stored_history (stored_env ai_silent (js ''s1'') (IsJson (JArr [JNum 1]))) (js ''s1'') = [JNum 1] \<and>
   trace (snd (handleChat (chat_request (js ''s1'') (js ''hi''))
                 (stored_env ai_silent (js ''s1'') (IsJson (JArr [JNum 1])))))
     = [KvGet (sessionKey (js ''s1'')),
        AiRun [JNum 1, obj \<lparr>role = user, content = js ''hi''\<rparr>],
        KvPut (sessionKey (js ''s1''))
          (IsJson (JArr [JNum 1,
                         obj \<lparr>role = user, content = js ''hi''\<rparr>,
                         obj \<lparr>role = assistant, content = js ''[no response]''\<rparr>])) 604800] \<and>
   trace (snd (handleChat (chat_request (js ''s1'') (js ''hi'')) (fresh_env ai_silent)))
     = [KvGet (sessionKey (js ''s1'')),
        AiRun [obj \<lparr>role = system, content = trim SYSTEM_PROMPT\<rparr>,
               obj \<lparr>role = user, content = js ''hi''\<rparr>],
        KvPut (sessionKey (js ''s1''))
          (IsJson (JArr [obj \<lparr>role = system, content = trim SYSTEM_PROMPT\<rparr>,
                         obj \<lparr>role = user, content = js ''hi''\<rparr>,
                         obj \<lparr>role = assistant, content = js ''[no response]''\<rparr>])) 604800]"
proof -
  let ?junk = "stored_env ai_silent (js ''s1'') (IsJson (JArr [JNum 1]))"
  let ?req = "chat_request (js ''s1'') (js ''hi'')"
  have acc: "accepted ?req = Some (js ''s1'', js ''hi'')"
    by (simp add: accepted_chat_request js_def)
  have st: "stored_history ?junk (js ''s1'') = [JNum 1]"
    by (simp add: stored_env_def stored_history_def loadHistory_def)
  have w1: "context_window ?junk (js ''s1'') (js ''hi'')
      = [JNum 1, obj \<lparr>role = user, content = js ''hi''\<rparr>]"
    by (simp add: context_window_def st trimHistory_short MAX_HISTORY_MESSAGES_def trim_plain)
  have w2: "context_window (fresh_env ai_silent) (js ''s1'') (js ''hi'')
      = [obj \<lparr>role = system, content = trim SYSTEM_PROMPT\<rparr>, obj \<lparr>role = user, content = js ''hi''\<rparr>]"
    by (simp add: context_window_empty stored_history_fresh trim_plain)
  have r1: "AI ?junk (context_window ?junk (js ''s1'') (js ''hi'')) = AiResponse None"
    by (simp add: stored_env_def ai_silent_def)
  have r2: "AI (fresh_env ai_silent) (context_window (fresh_env ai_silent) (js ''s1'') (js ''hi''))
      = AiResponse None"
    by (simp add: fresh_env_def ai_silent_def)
  have t1: "trace ?junk = []" and t2: "trace (fresh_env ai_silent) = []"
    by (simp_all add: stored_env_def fresh_env_def)
  show ?thesis
    using st by (simp add: handleChat_accepted_replies [OF acc r1] handleChat_accepted_replies [OF acc r2]
        w1 w2 t1 t2 reply_text_def)
qed

text \<open>
  C5, as the code has it. When the value stored for a session is absent, empty, not
  JSON, or JSON that is not an array, the load gives the empty transcript, and any
  call is answered as if the session were absent: the same response, the same calls
  on the store and the model, the same transcripts afterwards. An accepted call for
  that session to which the model replies seeds the instruction turn and succeeds
  with status 200.
\<close>

theorem unreadable_history_is_fresh:
  assumes "unreadable (CHAT_KV env (sessionKey s))"
  shows "stored_history env s = [] \<and>
         fst (handleChat request env)
           = fst (handleChat request (env\<lparr>CHAT_KV := (CHAT_KV env)(sessionKey s := None)\<rparr>)) \<and>
         trace (snd (handleChat request env))
           = trace (snd (handleChat request (env\<lparr>CHAT_KV := (CHAT_KV env)(sessionKey s := None)\<rparr>))) \<and>
         stored_history (snd (handleChat request env)) sid
           = stored_history
               (snd (handleChat request (env\<lparr>CHAT_KV := (CHAT_KV env)(sessionKey s := None)\<rparr>))) sid \<and>
         (accepted request = Some (s, m) \<and>
          AI env [obj \<lparr>role = system, content = trim SYSTEM_PROMPT\<rparr>,
                  obj \<lparr>role = user, content = trim m\<rparr>] = AiResponse r \<longrightarrow>
            fst (handleChat request env)
              = json (JObj [(js ''reply'', JStr (reply_text r)),
                            (js ''history'',
                             JArr [obj \<lparr>role = system, content = trim SYSTEM_PROMPT\<rparr>,
                                   obj \<lparr>role = user, content = trim m\<rparr>,
                                   obj \<lparr>role = assistant, content = reply_text r\<rparr>])]) 200)"
proof -
  let ?absent = "env\<lparr>CHAT_KV := (CHAT_KV env)(sessionKey s := None)\<rparr>"
  from assms have empty: "stored_history env s = []"
    by (rule unreadable_loads_empty)
  have same: "\<And>sid. stored_history env sid = stored_history ?absent sid"
    by (simp add: stored_history_forget [OF empty])
  have "fst (handleChat request env) = fst (handleChat request ?absent) \<and>
        trace (snd (handleChat request env)) = trace (snd (handleChat request ?absent)) \<and>
        stored_history (snd (handleChat request env)) sid
          = stored_history (snd (handleChat request ?absent)) sid"
    by (rule handleChat_same_transcripts) (simp_all add: same [symmetric])
  moreover have "accepted request = Some (s, m) \<and>
          AI env [obj \<lparr>role = system, content = trim SYSTEM_PROMPT\<rparr>,
                  obj \<lparr>role = user, content = trim m\<rparr>] = AiResponse r \<longrightarrow>
            fst (handleChat request env)
              = json (JObj [(js ''reply'', JStr (reply_text r)),
                            (js ''history'',
                             JArr [obj \<lparr>role = system, content = trim SYSTEM_PROMPT\<rparr>,
                                   obj \<lparr>role = user, content = trim m\<rparr>,
                                   obj \<lparr>role = assistant, content = reply_text r\<rparr>])]) 200"
    by (simp add: handleChat_accepted_replies context_window_empty [OF empty])
  ultimately show ?thesis using empty by blast
qed

theorem unreadable_history_is_fresh_witness:
  "unreadable (CHAT_KV (stored_env ai_silent (js ''s1'') NotJson) (sessionKey (js ''s1''))) \<and>
   stored_history (stored_env ai_silent (js ''s1'') NotJson) (js ''s1'') = [] \<and>
   accepted (chat_request (js ''s1'') (js ''hi'')) = Some (js ''s1'', js ''hi'') \<and>
   fst (handleChat (chat_request (js ''s1'') (js ''hi'')) (stored_env ai_silent (js ''s1'') NotJson))
     = json (JObj [(js ''reply'', JStr (js ''[no response]'')),
                   (js ''history'', JArr [obj \<lparr>role = system, content = trim SYSTEM_PROMPT\<rparr>,
                                           obj \<lparr>role = user, content = js ''hi''\<rparr>,
                                           obj \<lparr>role = assistant, content = js ''[no response]''\<rparr>])]) 200"
proof -
  let ?env = "stored_env ai_silent (js ''s1'') NotJson"
  let ?req = "chat_request (js ''s1'') (js ''hi'')"
  have u: "unreadable (CHAT_KV ?env (sessionKey (js ''s1'')))"
    by (simp add: stored_env_def)
  have acc: "accepted ?req = Some (js ''s1'', js ''hi'')"
    by (simp add: accepted_chat_request js_def)
  have r: "AI ?env [obj \<lparr>role = system, content = trim SYSTEM_PROMPT\<rparr>,
                    obj \<lparr>role = user, content = trim (js ''hi'')\<rparr>] = AiResponse None"
    by (simp add: stored_env_def ai_silent_def)
  note inst = unreadable_history_is_fresh [OF u, of ?req "js ''s1''" "js ''hi''" None]
  from inst have e: "stored_history ?env (js ''s1'') = []"
    by blast
  from inst acc r have "fst (handleChat ?req ?env)
      = json (JObj [(js ''reply'', JStr (reply_text None)),
                    (js ''history'',
                     JArr [obj \<lparr>role = system, content = trim SYSTEM_PROMPT\<rparr>,
                           obj \<lparr>role = user, content = trim (js ''hi'')\<rparr>,
                           obj \<lparr>role = assistant, content = reply_text None\<rparr>])]) 200"
    by blast
  then have f: "fst (handleChat ?req ?env)
      = json (JObj [(js ''reply'', JStr (js ''[no response]'')),
                   (js ''history'', JArr [obj \<lparr>role = system, content = trim SYSTEM_PROMPT\<rparr>,
                                           obj \<lparr>role = user, content = js ''hi''\<rparr>,
                                           obj \<lparr>role = assistant, content = js ''[no response]''\<rparr>])]) 200"
    by (simp add: reply_text_def trim_plain)
  from u e acc f show ?thesis by blast
qed

section \<open>A reply without text\<close>

lemma nonempty_content_obj: "nonempty_content (obj m) = (content m \<noteq> [])"
  by (simp add: nonempty_content_def obj_def js_def)

lemma trim_SYSTEM_PROMPT: "trim SYSTEM_PROMPT \<noteq> []"
  by (simp add: SYSTEM_PROMPT_def js_def trim_def is_ws_def)

lemma sentinel_nonempty: "js ''[no response]'' \<noteq> []"
  by (simp add: js_def)

lemma list_all_trimHistory:
  "0 < n \<Longrightarrow> list_all P h \<Longrightarrow> list_all P (trimHistory h n)"
proof (cases h)
  case Nil
  then show ?thesis by (simp add: trimHistory_short)
next
  case (Cons x xs)
  assume "0 < n" and "list_all P h"
  with Cons trimHistory_Cons [of n x xs] show ?thesis
    by (auto simp: list_all_drop)
qed

lemma nonempty_content_window:
  assumes "list_all nonempty_content (stored_history env s)" and "trim m \<noteq> []"
  shows "list_all nonempty_content (context_window env s m)"
  unfolding context_window_def Let_def
  using assms
  by (intro list_all_trimHistory)
     (simp_all add: MAX_HISTORY_MESSAGES_def nonempty_content_obj trim_SYSTEM_PROMPT)

text \<open>
  A reply that is the empty string is not replaced: the assistant's turn is stored
  with empty content, and the reply of the response is empty.
\<close>

theorem empty_reply_counterexample:
  "fst (handleChat (chat_request (js ''s1'') (js ''hi'')) (fresh_env (ai_says [])))
     = json (JObj [(js ''reply'', JStr []),
                   (js ''history'', JArr [obj \<lparr>role = system, content = trim SYSTEM_PROMPT\<rparr>,
                                           obj \<lparr>role = user, content = js ''hi''\<rparr>,
                                           obj \<lparr>role = assistant, content = []\<rparr>])]) 200 \<and>
   stored_history (snd (handleChat (chat_request (js ''s1'') (js ''hi'')) (fresh_env (ai_says []))))
       (js ''s1'')
     = [obj \<lparr>role = system, content = trim SYSTEM_PROMPT\<rparr>,
        obj \<lparr>role = user, content = js ''hi''\<rparr>,
        obj \<lparr>role = assistant, content = []\<rparr>] \<and>
   \<not> nonempty_content (obj \<lparr>role = assistant, content = []\<rparr>)"
proof -
  let ?env = "fresh_env (ai_says [])"
  let ?req = "chat_request (js ''s1'') (js ''hi'')"
  have acc: "accepted ?req = Some (js ''s1'', js ''hi'')"
    by (simp add: accepted_chat_request js_def)
  have w: "context_window ?env (js ''s1'') (js ''hi'')
      = [obj \<lparr>role = system, content = trim SYSTEM_PROMPT\<rparr>, obj \<lparr>role = user, content = js ''hi''\<rparr>]"
    by (simp add: context_window_empty stored_history_fresh trim_plain)
  have r: "AI ?env (context_window ?env (js ''s1'') (js ''hi'')) = AiResponse (Some [])"
    by (simp add: fresh_env_def ai_says_def)
  show ?thesis
    by (simp add: handleChat_accepted_replies [OF acc r] stored_history_put w reply_text_def
        nonempty_content_obj)
qed

text \<open>
  C7, as the code has it. When a call is accepted and the model returns no
  \<open>response\<close> at all, the assistant's turn gets the text \<open>[no response]\<close>: the answer
  has status 200 with that reply, and the window followed by that turn is stored.
  That turn has content; so has every stored turn of the session, if the turns
  stored before had and the trimmed message is not empty.
\<close>

theorem missing_reply_gets_sentinel:
  assumes "accepted request = Some (s, m)"
    and "AI env (context_window env s m) = AiResponse None"
  shows "fst (handleChat request env)
           = json (JObj [(js ''reply'', JStr (js ''[no response]'')),
                         (js ''history'',
                          JArr (context_window env s m
                                @ [obj \<lparr>role = assistant, content = js ''[no response]''\<rparr>]))]) 200 \<and>
         CHAT_KV (snd (handleChat request env))
           = (CHAT_KV env)(sessionKey s \<mapsto>
                IsJson (JArr (context_window env s m
                              @ [obj \<lparr>role = assistant, content = js ''[no response]''\<rparr>]))) \<and>
         stored_history (snd (handleChat request env)) s
           = context_window env s m @ [obj \<lparr>role = assistant, content = js ''[no response]''\<rparr>] \<and>
         nonempty_content (obj \<lparr>role = assistant, content = js ''[no response]''\<rparr>) \<and>
         (list_all nonempty_content (stored_history env s) \<and> trim m \<noteq> [] \<longrightarrow>
            list_all nonempty_content (stored_history (snd (handleChat request env)) s))"
proof -
  have st: "stored_history (snd (handleChat request env)) s
      = context_window env s m @ [obj \<lparr>role = assistant, content = js ''[no response]''\<rparr>]"
    using assms by (simp add: stored_history_handleChat reply_text_def)
  have ne: "nonempty_content (obj \<lparr>role = assistant, content = js ''[no response]''\<rparr>)"
    by (simp add: nonempty_content_obj sentinel_nonempty)
  have "list_all nonempty_content (stored_history env s) \<and> trim m \<noteq> [] \<longrightarrow>
            list_all nonempty_content (stored_history (snd (handleChat request env)) s)"
    by (simp add: st ne nonempty_content_window)
  with st ne show ?thesis
    by (simp add: handleChat_accepted_replies [OF assms] reply_text_def)
qed

theorem missing_reply_gets_sentinel_witness:
  "accepted (chat_request (js ''s1'') (js ''hi'')) = Some (js ''s1'', js ''hi'') \<and>
   AI (fresh_env ai_silent) (context_window (fresh_env ai_silent) (js ''s1'') (js ''hi''))
     = AiResponse None \<and>
   list_all nonempty_content (stored_history (fresh_env ai_silent) (js ''s1'')) \<and>
   trim (js ''hi'') \<noteq> [] \<and>
   stored_history (snd (handleChat (chat_request (js ''s1'') (js ''hi'')) (fresh_env ai_silent)))
       (js ''s1'')
     = [obj \<lparr>role = system, content = trim SYSTEM_PROMPT\<rparr>,
        obj \<lparr>role = user, content = js ''hi''\<rparr>,
        obj \<lparr>role = assistant, content = js ''[no response]''\<rparr>] \<and>
   list_all nonempty_content
     (stored_history (snd (handleChat (chat_request (js ''s1'') (js ''hi'')) (fresh_env ai_silent)))
        (js ''s1''))"
proof -
  let ?env = "fresh_env ai_silent"
  let ?req = "chat_request (js ''s1'') (js ''hi'')"
  have acc: "accepted ?req = Some (js ''s1'', js ''hi'')"
    by (simp add: accepted_chat_request js_def)
  have r: "AI ?env (context_window ?env (js ''s1'') (js ''hi'')) = AiResponse None"
    by (simp add: fresh_env_def ai_silent_def)
  have before: "list_all nonempty_content (stored_history ?env (js ''s1''))"
    by (simp add: stored_history_fresh)
  have t: "trim (js ''hi'') \<noteq> []"
    by (simp add: js_def trim_def is_ws_def)
  have w: "context_window ?env (js ''s1'') (js ''hi'')
      = [obj \<lparr>role = system, content = trim SYSTEM_PROMPT\<rparr>, obj \<lparr>role = user, content = js ''hi''\<rparr>]"
    by (simp add: context_window_empty stored_history_fresh trim_plain)
  note inst = missing_reply_gets_sentinel [OF acc r]
  from inst have "stored_history (snd (handleChat ?req ?env)) (js ''s1'')
      = context_window ?env (js ''s1'') (js ''hi'')
        @ [obj \<lparr>role = assistant, content = js ''[no response]''\<rparr>]"
    by blast
  then have st: "stored_history (snd (handleChat ?req ?env)) (js ''s1'')
     = [obj \<lparr>role = system, content = trim SYSTEM_PROMPT\<rparr>,
        obj \<lparr>role = user, content = js ''hi''\<rparr>,
        obj \<lparr>role = assistant, content = js ''[no response]''\<rparr>]"
    by (simp add: w)
  from inst before t
  have "list_all nonempty_content (stored_history (snd (handleChat ?req ?env)) (js ''s1''))"
    by blast
  with acc r before t st show ?thesis by blast
qed

end
